theory Spec2Isabelle
  imports Main
begin

section \<open>The Discord gateway connection of Las Venturas Playground\<close>

text \<open>
  A shallow embedding of \<^verbatim>\<open>features/nuwani/discord/discord_connection.js\<close> (class
  \<^verbatim>\<open>DiscordConnection\<close>) and \<^verbatim>\<open>features/nuwani/discord/discord_socket.js\<close> (class
  \<^verbatim>\<open>DiscordSocket\<close>). Both classes are asynchronous JavaScript running on one event loop:
  a method runs without interruption up to its next \<^verbatim>\<open>await\<close>, where it leaves a pending
  continuation behind. The model keeps the private fields of the two objects in records,
  the pending continuations in task lists, and lets an event (a method call, a delegate
  callback, a timer or promise that resolves) run one uninterrupted piece of code.

  A private field \<^verbatim>\<open>#name_\<close> is written \<open>name_f\<close>, since a name may not end in an
  underscore here. Calls of \<^verbatim>\<open>console.log\<close> are left out. An execution covers a
  connection from its construction up to \<^verbatim>\<open>dispose()\<close>, which drops the socket reference;
  \<^verbatim>\<open>dispose()\<close> itself is modelled, so that a call made after it can be stated.
\<close>

subsection \<open>Values\<close>

text \<open>
  \<^verbatim>\<open>Symbol(...)\<close> creates a value that is equal to no other: the model numbers the
  symbols in the order of their creation.
\<close>

type_synonym symbol = nat

datatype jsvalue =
    JsUndefined
  | JsNull
  | JsBool bool
  | JsNum int
  | JsStr string
  | JsObject "(string \<times> jsvalue) list"

text \<open>The errors thrown by the two classes, each by its message.\<close>

datatype error =
    AttemptInProgress \<comment> \<open>\<^verbatim>\<open>A connection attempt is already in progress.\<close>\<close>
  | IntervalTooLow \<comment> \<open>\<^verbatim>\<open>Unwilling to start the Discord monitor: interval too low.\<close>\<close>
  | TypeError \<comment> \<open>a property of null is read, or null is destructured\<close>

text \<open>The opcodes of \<^verbatim>\<open>DiscordConnection\<close> and its minimum heartbeat interval.\<close>

definition kOpcodeDispatch :: int where "kOpcodeDispatch = 0"
definition kOpcodeHeartbeat :: int where "kOpcodeHeartbeat = 1"
definition kOpcodeHeartbeatAck :: int where "kOpcodeHeartbeatAck = 11"
definition kOpcodeHello :: int where "kOpcodeHello = 10"
definition kOpcodeIdentify :: int where "kOpcodeIdentify = 2"
definition kOpcodeInvalidSession :: int where "kOpcodeInvalidSession = 9"
definition kOpcodeReconnect :: int where "kOpcodeReconnect = 7"
definition kOpcodeResume :: int where "kOpcodeResume = 6"

definition kMinimumHeartbeatMonitorMs :: int where
  "kMinimumHeartbeatMonitorMs = 10 * 1000"

text \<open>
  A message received from Discord, as \<^verbatim>\<open>onMessage\<close> reads it: the opcode
  \<^verbatim>\<open>message.op\<close> and, for a Hello, \<^verbatim>\<open>message.d.heartbeat_interval\<close> in milliseconds
  (\<open>None\<close> when the property is absent, null or undefined).
\<close>

record message =
  msg_op :: int
  msg_heartbeat_interval :: "int option"

text \<open>
  Reading the property \<open>key\<close> of a value that is not null or undefined: a property that
  an object does not have, and any of the properties read here of a number, a string or a
  boolean, is undefined.
\<close>

definition property :: "string \<Rightarrow> jsvalue \<Rightarrow> jsvalue" where
  "property key v =
     (case v of
        JsObject properties \<Rightarrow>
          (case map_of properties key of None \<Rightarrow> JsUndefined | Some x \<Rightarrow> x)
      | _ \<Rightarrow> JsUndefined)"

text \<open>
  A default of a parameter or of a destructuring pattern, \<^verbatim>\<open>x = dflt\<close>: it replaces a
  value that is undefined, whether left out or passed as such, and no other.
\<close>

definition orDefault :: "jsvalue \<Rightarrow> jsvalue \<Rightarrow> jsvalue" where
  "orDefault v dflt = (if v = JsUndefined then dflt else v)"

text \<open>The envelope is the object \<^verbatim>\<open>{ op, d, s, t }\<close> handed to \<^verbatim>\<open>DiscordSocket.write\<close>.\<close>

record envelope =
  env_op :: jsvalue
  env_d :: jsvalue
  env_s :: jsvalue
  env_t :: jsvalue

subsection \<open>BackoffPolicy\<close>

text \<open>
  Modelled from the spec: the state of class \<^verbatim>\<open>BackoffPolicy\<close> of
  \<^verbatim>\<open>features/nuwani/runtime/backoff_policy.js\<close>, which \<^verbatim>\<open>DiscordSocket\<close> imports and
  which is not among the source files. The state is the attempt counter and the
  last-computed delay bound; the base delay and the ceiling are values the spec leaves
  open, kept as fields. A failure advances the counter and doubles the bound up to the
  ceiling; a success or an explicit reset returns to the idle baseline. The delay is the
  bound plus an injected jitter draw, which is cut to the bound itself and to the ceiling.
  The methods carry the names under which \<^verbatim>\<open>DiscordSocket\<close> calls them; the spec calls
  them \<^verbatim>\<open>timeToNextAttempt\<close>, \<^verbatim>\<open>markSuccess\<close>, \<^verbatim>\<open>markFailure\<close> and \<^verbatim>\<open>resetToIdle\<close>.
\<close>

record BackoffPolicy =
  baseDelayMs :: nat
  maxDelayMs :: nat
  attempts :: nat
  delayBoundMs :: nat

text \<open>
  Modelled from the spec: the constructor of \<^verbatim>\<open>BackoffPolicy\<close>, which is missing; a new
  policy is at the idle baseline.
\<close>

definition newBackoffPolicy :: "nat \<Rightarrow> nat \<Rightarrow> BackoffPolicy" where
  "newBackoffPolicy base ceiling =
     \<lparr>baseDelayMs = base, maxDelayMs = ceiling, attempts = 0, delayBoundMs = 0\<rparr>"

text \<open>
  Modelled from the spec: \<^verbatim>\<open>BackoffPolicy.resetToIdle\<close>, which is missing; it returns to
  the baseline without implying success.
\<close>

definition resetToIdle :: "BackoffPolicy \<Rightarrow> BackoffPolicy" where
  "resetToIdle p = p\<lparr>attempts := 0, delayBoundMs := 0\<rparr>"

text \<open>
  Modelled from the spec: \<^verbatim>\<open>BackoffPolicy.markRequestSuccessful\<close> (the spec's
  \<^verbatim>\<open>markSuccess\<close>), which is missing; it resets the state to the idle baseline.
\<close>

definition markRequestSuccessful :: "BackoffPolicy \<Rightarrow> BackoffPolicy" where
  "markRequestSuccessful p = p\<lparr>attempts := 0, delayBoundMs := 0\<rparr>"

text \<open>
  Modelled from the spec: \<^verbatim>\<open>BackoffPolicy.markRequestFailed\<close> (the spec's
  \<^verbatim>\<open>markFailure\<close>), which is missing; it advances the attempt counter and increases the
  next delay: the bound becomes the base delay after the first failure and doubles after
  each further one, up to the ceiling.
\<close>

definition markRequestFailed :: "BackoffPolicy \<Rightarrow> BackoffPolicy" where
  "markRequestFailed p =
     p\<lparr>attempts := attempts p + 1,
       delayBoundMs :=
         min (maxDelayMs p) (if delayBoundMs p = 0 then baseDelayMs p else 2 * delayBoundMs p)\<rparr>"

text \<open>
  Modelled from the spec: \<^verbatim>\<open>BackoffPolicy.getTimeToNextRequestMs\<close> (the spec's
  \<^verbatim>\<open>timeToNextAttempt\<close>), which is missing; the delay before the next attempt, for the
  injected jitter draw \<open>jitter\<close>.
\<close>

definition getTimeToNextRequestMs :: "nat \<Rightarrow> BackoffPolicy \<Rightarrow> nat" where
  "getTimeToNextRequestMs jitter p =
     min (maxDelayMs p) (delayBoundMs p + jitter mod (delayBoundMs p + 1))"

subsection \<open>The state of the two objects\<close>

text \<open>
  \<^verbatim>\<open>DiscordSocket.kState...\<close>: the states of the platform socket, read as
  \<^verbatim>\<open>this.#socket_.state\<close>.
\<close>

datatype SocketState =
    kStateConnected
  | kStateConnecting
  | kStateDisconnecting
  | kStateDisconnected

text \<open>
  The private fields of \<^verbatim>\<open>DiscordSocket\<close>. Of the platform socket \<^verbatim>\<open>#socket_\<close>
  (\<^verbatim>\<open>Socket\<close> or \<^verbatim>\<open>MockSocket\<close>, neither among the source files) the model keeps the
  state it reports, which only the platform changes, and the calls made on it.
\<close>

record DiscordSocket =
  backoffPolicy_f :: BackoffPolicy
  connectionToken_f :: "symbol option"
  disposed_f :: bool
  socket_state :: SocketState

text \<open>
  The private fields of \<^verbatim>\<open>DiscordConnection\<close>, but \<^verbatim>\<open>#configuration_\<close> (it only
  names the endpoint). The field \<^verbatim>\<open>#socket_\<close> holds the reference to the one
  \<^verbatim>\<open>DiscordSocket\<close> of the world, or null (\<open>None\<close>) once \<^verbatim>\<open>dispose()\<close> has run. The
  heartbeat interval is in milliseconds, the ack time a reading of
  \<^verbatim>\<open>server.clock.monotonicallyIncreasingTime()\<close>.
\<close>

datatype socket_ref = TheSocket

record DiscordConnection =
  connect_f :: bool
  connected_f :: bool
  connecting_f :: bool
  heartbeatAckTime_f :: "int option"
  heartbeatIntervalMs_f :: "int option"
  heartbeatMonitorToken_f :: "symbol option"
  socket_f :: "socket_ref option"

text \<open>
  Where a pending invocation of \<^verbatim>\<open>DiscordSocket.connect\<close> is suspended: in the
  \<^verbatim>\<open>wait\<close> before the loop, in \<^verbatim>\<open>this.#socket_.open\<close>, or in the \<^verbatim>\<open>wait\<close> at the end
  of a failed iteration. (The local counter \<^verbatim>\<open>attempt\<close> is never read and is left out.)
\<close>

datatype stage = AwaitInitialWait | AwaitOpen | AwaitRetryWait

text \<open>
  A call made on the platform socket. An \<^verbatim>\<open>open\<close> is recorded with the connection token
  of the invocation of \<^verbatim>\<open>connect\<close> that made it.
\<close>

datatype socket_call = CallOpen symbol | CallClose

text \<open>
  The world: both objects, the number of symbols created so far, the pending invocations
  of \<^verbatim>\<open>DiscordSocket.connect\<close> (each known by the connection token it created, with its
  stage) and of \<^verbatim>\<open>heartbeatMonitor\<close> (each known by the monitor token it created, all
  suspended in the \<^verbatim>\<open>wait\<close> of the loop), the calls made on the platform socket, and the
  envelopes passed to \<^verbatim>\<open>DiscordSocket.write\<close>, oldest first.
\<close>

record world =
  conn :: DiscordConnection
  sock :: DiscordSocket
  symbols :: nat
  connectTasks :: "(symbol \<times> stage) list"
  monitorTasks :: "symbol list"
  socketCalls :: "socket_call list"
  writeCalls :: "envelope list"

text \<open>
  The world after both constructors, for a backoff policy \<open>p\<close>; a platform socket
  starts disconnected.
\<close>

definition init :: "BackoffPolicy \<Rightarrow> world" where
  "init p =
     \<lparr>conn = \<lparr>connect_f = False, connected_f = False, connecting_f = False,
               heartbeatAckTime_f = None, heartbeatIntervalMs_f = None,
               heartbeatMonitorToken_f = None, socket_f = Some TheSocket\<rparr>,
      sock = \<lparr>backoffPolicy_f = p, connectionToken_f = None, disposed_f = False,
               socket_state = kStateDisconnected\<rparr>,
      symbols = 0, connectTasks = [], monitorTasks = [], socketCalls = [],
      writeCalls = []\<rparr>"

text \<open>Bookkeeping of the pending invocations.\<close>

definition stageOf :: "symbol \<Rightarrow> world \<Rightarrow> stage option" where
  "stageOf tok w = map_of (connectTasks w) tok"

definition suspend :: "symbol \<Rightarrow> stage \<Rightarrow> world \<Rightarrow> world" where
  "suspend tok st w =
     w\<lparr>connectTasks := filter (\<lambda>e. fst e \<noteq> tok) (connectTasks w) @ [(tok, st)]\<rparr>"

definition finish :: "symbol \<Rightarrow> world \<Rightarrow> world" where
  "finish tok w = w\<lparr>connectTasks := filter (\<lambda>e. fst e \<noteq> tok) (connectTasks w)\<rparr>"

definition backoff :: "(BackoffPolicy \<Rightarrow> BackoffPolicy) \<Rightarrow> world \<Rightarrow> world" where
  "backoff f w = w\<lparr>sock := (sock w)\<lparr>backoffPolicy_f := f (backoffPolicy_f (sock w))\<rparr>\<rparr>"

definition socket_close :: "world \<Rightarrow> world" where
  "socket_close w = w\<lparr>socketCalls := socketCalls w @ [CallClose]\<rparr>"

subsection \<open>DiscordSocket\<close>

text \<open>
  \<^verbatim>\<open>DiscordSocket.connect\<close> up to its first \<^verbatim>\<open>await\<close>: the guard against a second
  attempt, the fresh connection token, and the wait for the initial back-off. The endpoint
  only names the target of \<^verbatim>\<open>open\<close>; it is taken to be a URL that parses and is left
  out.
\<close>

definition socket_connect :: "world \<Rightarrow> (error + unit) \<times> world" where
  "socket_connect w =
     (if connectionToken_f (sock w) \<noteq> None then (Inl AttemptInProgress, w)
      else
        let connectionToken = symbols w;
            w1 = w\<lparr>symbols := Suc (symbols w),
                   sock := (sock w)\<lparr>connectionToken_f := Some connectionToken\<rparr>\<rparr>
        in (Inr (), suspend connectionToken AwaitInitialWait w1))"

text \<open>The head of a loop iteration: \<^verbatim>\<open>await this.#socket_.open({...})\<close>.\<close>

definition connect_attempt :: "symbol \<Rightarrow> world \<Rightarrow> world" where
  "connect_attempt connectionToken w =
     suspend connectionToken AwaitOpen
       (w\<lparr>socketCalls := socketCalls w @ [CallOpen connectionToken]\<rparr>)"

text \<open>After the initial wait: a superseded or disposed attempt resets the policy and returns.\<close>

definition connect_afterInitialWait :: "symbol \<Rightarrow> world \<Rightarrow> world" where
  "connect_afterInitialWait connectionToken w =
     (if connectionToken_f (sock w) \<noteq> Some connectionToken \<or> disposed_f (sock w)
      then finish connectionToken (backoff resetToIdle w)
      else connect_attempt connectionToken w)"

text \<open>
  After \<^verbatim>\<open>open\<close> has resolved to \<open>connected\<close>: the result is reported to the policy; a
  superseded attempt returns (closing the socket when it connected and the object is
  disposed); a successful one clears the token and returns; a failed one waits.
\<close>

definition connect_afterOpen :: "symbol \<Rightarrow> bool \<Rightarrow> world \<Rightarrow> world" where
  "connect_afterOpen connectionToken connected w =
     (let w1 = backoff (if connected then markRequestSuccessful else markRequestFailed) w
      in if connectionToken_f (sock w1) \<noteq> Some connectionToken
         then finish connectionToken
                (if connected \<and> disposed_f (sock w1) then socket_close w1 else w1)
         else if connected
         then finish connectionToken (w1\<lparr>sock := (sock w1)\<lparr>connectionToken_f := None\<rparr>\<rparr>)
         else suspend connectionToken AwaitRetryWait w1)"

text \<open>After the wait of a failed iteration, up to the loop condition.\<close>

definition connect_afterRetryWait :: "symbol \<Rightarrow> world \<Rightarrow> world" where
  "connect_afterRetryWait connectionToken w =
     (let w1 = (if connectionToken_f (sock w) \<noteq> Some connectionToken
                then backoff resetToIdle w else w)
      in if connectionToken_f (sock w1) = Some connectionToken \<and> \<not> disposed_f (sock w1)
         then connect_attempt connectionToken w1
         else finish connectionToken w1)"

text \<open>
  \<^verbatim>\<open>async write(message) {}\<close>: the body is empty, so the call returns undefined in
  every state. The model records the envelope it was called with.
\<close>

definition socket_write :: "envelope \<Rightarrow> world \<Rightarrow> (error + jsvalue) \<times> world" where
  "socket_write message w = (Inr JsUndefined, w\<lparr>writeCalls := writeCalls w @ [message]\<rparr>)"

definition socket_disconnect :: "world \<Rightarrow> world" where
  "socket_disconnect w =
     (if disposed_f (sock w) then w
      else
        let w1 = (case socket_state (sock w) of
                    kStateConnecting \<Rightarrow> socket_close w
                  | kStateConnected \<Rightarrow> socket_close w
                  | kStateDisconnecting \<Rightarrow> socket_close w
                  | kStateDisconnected \<Rightarrow> w)
        in w1\<lparr>sock := (sock w1)\<lparr>connectionToken_f := None\<rparr>\<rparr>)"

text \<open>\<^verbatim>\<open>DiscordSocket.dispose\<close>.\<close>

definition socket_dispose :: "world \<Rightarrow> world" where
  "socket_dispose w = w\<lparr>sock := (sock w)\<lparr>disposed_f := True\<rparr>\<rparr>"

subsection \<open>DiscordConnection\<close>

definition isConnected :: "world \<Rightarrow> bool" where
  "isConnected w = connected_f (conn w)"

text \<open>
  \<^verbatim>\<open>internalConnect\<close> sets the flag before it calls the socket, so the flag stays set
  when the socket throws, or when \<^verbatim>\<open>this.#socket_\<close> is null.
\<close>

definition internalConnect :: "world \<Rightarrow> (error + unit) \<times> world" where
  "internalConnect w =
     (let w1 = w\<lparr>conn := (conn w)\<lparr>connecting_f := True\<rparr>\<rparr>
      in case socket_f (conn w1) of
           None \<Rightarrow> (Inl TypeError, w1)
         | Some TheSocket \<Rightarrow> socket_connect w1)"

definition connect :: "world \<Rightarrow> (error + unit) \<times> world" where
  "connect w =
     (let w1 = w\<lparr>conn := (conn w)\<lparr>connect_f := True\<rparr>\<rparr>
      in if \<not> connecting_f (conn w1) then internalConnect w1 else (Inr (), w1))"

definition disconnect :: "world \<Rightarrow> (error + unit) \<times> world" where
  "disconnect w =
     (let w1 = w\<lparr>conn := (conn w)\<lparr>connect_f := False, connecting_f := False\<rparr>\<rparr>
      in case socket_f (conn w1) of
           None \<Rightarrow> (Inl TypeError, w1)
         | Some TheSocket \<Rightarrow> (Inr (), socket_disconnect w1))"

text \<open>\<^verbatim>\<open>identify\<close> has an empty body.\<close>

definition identify :: "world \<Rightarrow> world" where
  "identify w = w"

text \<open>
  \<^verbatim>\<open>async sendOpcodeMessage({ op, d = {}, s = null, t = null } = {})\<close>, called with
  \<open>argument\<close> (undefined when the call has no argument). The parameter is bound first: an
  undefined argument is replaced by the empty object, and destructuring null throws. Then
  the body: not connected, it returns false; connected, it reads \<^verbatim>\<open>this.#socket_.write\<close>,
  which throws when the reference is null.
\<close>

definition sendOpcodeMessage :: "jsvalue \<Rightarrow> world \<Rightarrow> (error + jsvalue) \<times> world" where
  "sendOpcodeMessage argument w =
     (let a = orDefault argument (JsObject [])
      in if a = JsNull then (Inl TypeError, w)
         else if \<not> connected_f (conn w) then (Inr (JsBool False), w)
         else case socket_f (conn w) of
                None \<Rightarrow> (Inl TypeError, w)
              | Some TheSocket \<Rightarrow>
                  socket_write
                    \<lparr>env_op = property ''op'' a,
                     env_d = orDefault (property ''d'' a) (JsObject []),
                     env_s = orDefault (property ''s'' a) JsNull,
                     env_t = orDefault (property ''t'' a) JsNull\<rparr> w)"

text \<open>The argument of the call \<^verbatim>\<open>sendOpcodeMessage({ op })\<close>, as the class makes it.\<close>

definition opOnly :: "int \<Rightarrow> jsvalue" where
  "opOnly opcode = JsObject [(''op'', JsNum opcode)]"

definition onConnectionClosed :: "world \<Rightarrow> world" where
  "onConnectionClosed w =
     w\<lparr>conn := (conn w)\<lparr>connected_f := False, heartbeatMonitorToken_f := None\<rparr>\<rparr>"

definition onConnectionEstablished :: "world \<Rightarrow> world" where
  "onConnectionEstablished w =
     w\<lparr>conn := (conn w)\<lparr>connected_f := True, connecting_f := False,
                         heartbeatIntervalMs_f := None, heartbeatAckTime_f := None\<rparr>\<rparr>"

definition onConnectionFailed :: "world \<Rightarrow> world" where
  "onConnectionFailed w = w"

text \<open>
  The sanity check of \<^verbatim>\<open>heartbeatMonitor\<close>:
  \<^verbatim>\<open>!this.#heartbeatIntervalMs_ || this.#heartbeatIntervalMs_ < kMinimumHeartbeatMonitorMs\<close>.
  A number is falsy when it is zero.
\<close>

definition intervalTooLow :: "int option \<Rightarrow> bool" where
  "intervalTooLow heartbeatIntervalMs =
     (case heartbeatIntervalMs of
        None \<Rightarrow> True
      | Some ms \<Rightarrow> ms = 0 \<or> ms < kMinimumHeartbeatMonitorMs)"

text \<open>
  \<^verbatim>\<open>heartbeatMonitor\<close> up to its first \<^verbatim>\<open>await\<close>: the fresh token is stored, then the
  interval is checked, then the loop suspends in \<^verbatim>\<open>wait\<close>.
\<close>

definition heartbeatMonitor :: "world \<Rightarrow> (error + unit) \<times> world" where
  "heartbeatMonitor w =
     (let heartbeatMonitorToken = symbols w;
          w1 = w\<lparr>symbols := Suc (symbols w),
                 conn := (conn w)\<lparr>heartbeatMonitorToken_f := Some heartbeatMonitorToken\<rparr>\<rparr>
      in if intervalTooLow (heartbeatIntervalMs_f (conn w1)) then (Inl IntervalTooLow, w1)
         else (Inr (), w1\<lparr>monitorTasks := monitorTasks w1 @ [heartbeatMonitorToken]\<rparr>))"

text \<open>
  One turn of the monitor loop, from the end of \<^verbatim>\<open>await wait(...); await
  Promise.resolve()\<close> to the next \<^verbatim>\<open>wait\<close>. The monitor does nothing between its two
  awaits, so they are one suspension. The result of \<^verbatim>\<open>sendOpcodeMessage\<close> is not used.
\<close>

definition monitor_afterWait :: "symbol \<Rightarrow> world \<Rightarrow> world" where
  "monitor_afterWait heartbeatMonitorToken w =
     (if heartbeatMonitorToken_f (conn w) \<noteq> Some heartbeatMonitorToken
      then w\<lparr>monitorTasks := filter (\<lambda>t. t \<noteq> heartbeatMonitorToken) (monitorTasks w)\<rparr>
      else snd (sendOpcodeMessage (opOnly kOpcodeHeartbeat) w))"

text \<open>
  \<^verbatim>\<open>onMessage\<close> at clock reading \<open>now\<close>. The switch compares \<^verbatim>\<open>message.op\<close> with the
  cases in their order. \<^verbatim>\<open>heartbeatMonitor()\<close> is called without \<^verbatim>\<open>await\<close>: when it
  throws, its promise is rejected and \<^verbatim>\<open>onMessage\<close> goes on to \<^verbatim>\<open>identify()\<close>.
\<close>

definition onMessage :: "int \<Rightarrow> message \<Rightarrow> world \<Rightarrow> world" where
  "onMessage now message w =
     (if msg_op message = kOpcodeHeartbeat
        then snd (sendOpcodeMessage (opOnly kOpcodeHeartbeatAck) w)
      else if msg_op message = kOpcodeHeartbeatAck
        then w\<lparr>conn := (conn w)\<lparr>heartbeatAckTime_f := Some now\<rparr>\<rparr>
      else if msg_op message = kOpcodeHello
        then
          let w1 = w\<lparr>conn := (conn w)\<lparr>heartbeatIntervalMs_f :=
                      Some (case msg_heartbeat_interval message of
                              None \<Rightarrow> 41250 | Some ms \<Rightarrow> ms)\<rparr>\<rparr>
          in identify (snd (heartbeatMonitor w1))
      else w)"

text \<open>
  \<^verbatim>\<open>dispose\<close>: the monitor token is cleared, the socket is disconnected and disposed
  of, and the reference is dropped. A second call throws when it reads
  \<^verbatim>\<open>this.#socket_.disconnect\<close>.
\<close>

definition dispose :: "world \<Rightarrow> (error + unit) \<times> world" where
  "dispose w =
     (let w1 = w\<lparr>conn := (conn w)\<lparr>heartbeatMonitorToken_f := None\<rparr>\<rparr>
      in case socket_f (conn w1) of
           None \<Rightarrow> (Inl TypeError, w1)
         | Some TheSocket \<Rightarrow>
             (let w2 = socket_dispose (socket_disconnect w1)
              in (Inr (), w2\<lparr>conn := (conn w2)\<lparr>socket_f := None\<rparr>\<rparr>)))"

subsection \<open>Executions\<close>

text \<open>
  What can happen to a connection: the application calls \<^verbatim>\<open>connect\<close>, \<^verbatim>\<open>disconnect\<close>
  or \<^verbatim>\<open>sendOpcodeMessage\<close>; the delegate callbacks are called; a \<^verbatim>\<open>wait\<close> of an
  invocation of \<^verbatim>\<open>DiscordSocket.connect\<close> ends, or its \<^verbatim>\<open>open\<close> resolves; the wait of
  a heartbeat monitor ends; the platform socket changes its state. An event for an
  invocation that is not pending at that point does nothing. \<^verbatim>\<open>DiscordSocket\<close> does not
  call the delegate yet (the places are marked \<^verbatim>\<open>TODO: Delegate\<close>), so the callbacks are
  events of their own, which may come at any point.
\<close>

datatype event =
    Connect
  | Disconnect
  | Send jsvalue
  | Established
  | Closed
  | Failed
  | Message int message
  | ConnectWake symbol
  | OpenDone symbol bool
  | MonitorWake symbol
  | Platform SocketState

fun step :: "event \<Rightarrow> world \<Rightarrow> world" where
  "step Connect w = snd (connect w)"
| "step Disconnect w = snd (disconnect w)"
| "step (Send a) w = snd (sendOpcodeMessage a w)"
| "step Established w = onConnectionEstablished w"
| "step Closed w = onConnectionClosed w"
| "step Failed w = onConnectionFailed w"
| "step (Message now m) w = onMessage now m w"
| "step (ConnectWake tok) w =
     (case stageOf tok w of
        Some AwaitInitialWait \<Rightarrow> connect_afterInitialWait tok w
      | Some AwaitRetryWait \<Rightarrow> connect_afterRetryWait tok w
      | _ \<Rightarrow> w)"
| "step (OpenDone tok connected) w =
     (case stageOf tok w of
        Some AwaitOpen \<Rightarrow> connect_afterOpen tok connected w
      | _ \<Rightarrow> w)"
| "step (MonitorWake tok) w =
     (if tok \<in> set (monitorTasks w) then monitor_afterWait tok w else w)"
| "step (Platform st) w = w\<lparr>sock := (sock w)\<lparr>socket_state := st\<rparr>\<rparr>"

fun run :: "event list \<Rightarrow> world \<Rightarrow> world" where
  "run [] w = w"
| "run (ev # evs) w = run evs (step ev w)"

subsection \<open>Predicates on worlds and executions\<close>

text \<open>The Heartbeat envelopes among the calls of \<^verbatim>\<open>DiscordSocket.write\<close>.\<close>

definition heartbeats :: "world \<Rightarrow> envelope list" where
  "heartbeats w = filter (\<lambda>e. env_op e = JsNum kOpcodeHeartbeat) (writeCalls w)"

text \<open>
  A transport that follows the life of a connection reports it established only while
  the connection is not connected, and delivers messages only while it is connected.
\<close>

fun allowed :: "event \<Rightarrow> world \<Rightarrow> bool" where
  "allowed Established w = (\<not> connected_f (conn w))"
| "allowed (Message now m) w = connected_f (conn w)"
| "allowed ev w = True"

fun lifecycle :: "event list \<Rightarrow> world \<Rightarrow> bool" where
  "lifecycle [] w = True"
| "lifecycle (ev # evs) w = (allowed ev w \<and> lifecycle evs (step ev w))"

text \<open>
  A Hello whose recorded interval (its own, or 41250 when it has none) reaches the
  minimum; a call of \<^verbatim>\<open>sendOpcodeMessage\<close> by the application with the Heartbeat opcode.
\<close>

fun acceptedHello :: "event \<Rightarrow> bool" where
  "acceptedHello (Message now m) =
     (msg_op m = kOpcodeHello \<and>
      kMinimumHeartbeatMonitorMs
        \<le> (case msg_heartbeat_interval m of None \<Rightarrow> 41250 | Some ms \<Rightarrow> ms))"
| "acceptedHello ev = False"

fun appHeartbeat :: "event \<Rightarrow> bool" where
  "appHeartbeat (Send a) = (property ''op'' a = JsNum kOpcodeHeartbeat)"
| "appHeartbeat ev = False"

text \<open>
  Every token in use is a symbol that has been created, and an invocation of
  \<^verbatim>\<open>DiscordSocket.connect\<close> that is still in its initial wait has not called \<^verbatim>\<open>open\<close>.
\<close>

definition fresh :: "world \<Rightarrow> bool" where
  "fresh w \<longleftrightarrow>
     (\<forall>t. connectionToken_f (sock w) = Some t \<longrightarrow> t < symbols w) \<and>
     (\<forall>t. heartbeatMonitorToken_f (conn w) = Some t \<longrightarrow> t < symbols w) \<and>
     (\<forall>t st. map_of (connectTasks w) t = Some st \<longrightarrow> t < symbols w) \<and>
     (\<forall>t. t \<in> set (monitorTasks w) \<longrightarrow> t < symbols w) \<and>
     (\<forall>t. CallOpen t \<in> set (socketCalls w) \<longrightarrow>
           t < symbols w \<and> map_of (connectTasks w) t \<noteq> Some AwaitInitialWait)"

text \<open>
  The invocation with token \<open>tok\<close> is superseded and has not called \<^verbatim>\<open>open\<close>: it has
  returned or is still in its initial wait.
\<close>

definition unopened :: "symbol \<Rightarrow> world \<Rightarrow> bool" where
  "unopened tok w \<longleftrightarrow>
     tok < symbols w \<and> connectionToken_f (sock w) \<noteq> Some tok \<and>
     CallOpen tok \<notin> set (socketCalls w) \<and>
     (map_of (connectTasks w) tok = None \<or>
      map_of (connectTasks w) tok = Some AwaitInitialWait)"

text \<open>No invocation of \<^verbatim>\<open>DiscordSocket.connect\<close> is pending, or one that holds the token.\<close>

definition oneLoop :: "world \<Rightarrow> bool" where
  "oneLoop w \<longleftrightarrow>
     connectTasks w = [] \<or>
     (\<exists>t st. connectTasks w = [(t, st)] \<and> connectionToken_f (sock w) = Some t)"

text \<open>The monitor token \<open>tok\<close> has been created and is not the stored one.\<close>

definition retired :: "symbol \<Rightarrow> world \<Rightarrow> bool" where
  "retired tok w \<longleftrightarrow> tok < symbols w \<and> heartbeatMonitorToken_f (conn w) \<noteq> Some tok"

text \<open>
  A pending monitor that holds the stored token runs on an established connection whose
  recorded interval passes the sanity check.
\<close>

definition guarded :: "world \<Rightarrow> bool" where
  "guarded w \<longleftrightarrow>
     (\<forall>tok \<in> set (monitorTasks w). tok < symbols w \<and>
        (heartbeatMonitorToken_f (conn w) = Some tok \<longrightarrow>
           connected_f (conn w) \<and> \<not> intervalTooLow (heartbeatIntervalMs_f (conn w))))"

section \<open>Properties\<close>

lemmas opcode_defs =
  kOpcodeDispatch_def kOpcodeHeartbeat_def kOpcodeHeartbeatAck_def kOpcodeHello_def
  kOpcodeIdentify_def kOpcodeInvalidSession_def kOpcodeReconnect_def kOpcodeResume_def
  kMinimumHeartbeatMonitorMs_def

lemmas step_defs =
  connect_def internalConnect_def socket_connect_def disconnect_def socket_disconnect_def
  socket_close_def suspend_def finish_def backoff_def stageOf_def connect_attempt_def
  connect_afterInitialWait_def connect_afterOpen_def connect_afterRetryWait_def
  onConnectionClosed_def onConnectionEstablished_def onConnectionFailed_def
  heartbeatMonitor_def monitor_afterWait_def onMessage_def identify_def

lemmas model_defs =
  step_defs socket_write_def sendOpcodeMessage_def opOnly_def property_def orDefault_def

lemma send_frame:
  "conn (snd (sendOpcodeMessage a w)) = conn w"
  "sock (snd (sendOpcodeMessage a w)) = sock w"
  "symbols (snd (sendOpcodeMessage a w)) = symbols w"
  "connectTasks (snd (sendOpcodeMessage a w)) = connectTasks w"
  "monitorTasks (snd (sendOpcodeMessage a w)) = monitorTasks w"
  "socketCalls (snd (sendOpcodeMessage a w)) = socketCalls w"
  by (simp_all add: sendOpcodeMessage_def socket_write_def Let_def
      split: option.splits socket_ref.splits)

lemma send_heartbeats:
  "heartbeats (snd (sendOpcodeMessage a w)) = heartbeats w \<or>
   property ''op'' a = JsNum kOpcodeHeartbeat"
  by (cases "a = JsUndefined")
    (simp_all add: sendOpcodeMessage_def socket_write_def heartbeats_def orDefault_def
      property_def Let_def split: option.splits socket_ref.splits)

subsection \<open>The back-off delay\<close>

lemma maxDelayMs_failed: "maxDelayMs ((markRequestFailed ^^ n) p) = maxDelayMs p"
  by (induction n) (simp_all add: markRequestFailed_def)

lemma min_double: "x \<le> b \<Longrightarrow> min M (b + x) \<le> min M (min M (2 * b) + y)" for b :: nat
  by (simp add: min_def)

lemma delay_step:
  "getTimeToNextRequestMs j q \<le> getTimeToNextRequestMs j' (markRequestFailed q)"
proof (cases "delayBoundMs q = 0")
  case True
  then show ?thesis by (simp add: getTimeToNextRequestMs_def)
next
  case False
  have "j mod (delayBoundMs q + 1) \<le> delayBoundMs q"
    using mod_less_divisor [of "Suc (delayBoundMs q)" j] by simp
  from min_double [OF this] show ?thesis using False
    by (simp add: getTimeToNextRequestMs_def markRequestFailed_def)
qed

text \<open>
  Claim C8. Start from any policy state \<open>p\<close> and report \<open>n\<close> failures in a row. Whatever
  the jitter draws \<open>j\<close> and \<open>j'\<close>, the delay after \<open>n\<close> failures is at most the delay
  after one more failure, and it never exceeds the ceiling. A success reported after the
  failures brings the delay back to the idle baseline, the delay of a new policy, which
  is zero.
\<close>

theorem backoff_delay_monotone_then_idle:
  "getTimeToNextRequestMs j ((markRequestFailed ^^ n) p)
     \<le> getTimeToNextRequestMs j' ((markRequestFailed ^^ Suc n) p)
   \<and> getTimeToNextRequestMs j ((markRequestFailed ^^ n) p) \<le> maxDelayMs p
   \<and> getTimeToNextRequestMs j (markRequestSuccessful ((markRequestFailed ^^ n) p)) = 0
   \<and> getTimeToNextRequestMs j (newBackoffPolicy (baseDelayMs p) (maxDelayMs p)) = 0"
proof -
  have a: "getTimeToNextRequestMs j ((markRequestFailed ^^ n) p)
     \<le> getTimeToNextRequestMs j' ((markRequestFailed ^^ Suc n) p)"
    using delay_step [of j "(markRequestFailed ^^ n) p" j'] by simp
  have b: "getTimeToNextRequestMs j ((markRequestFailed ^^ n) p) \<le> maxDelayMs p"
    using maxDelayMs_failed [of n p] by (simp add: getTimeToNextRequestMs_def)
  have c: "getTimeToNextRequestMs j (markRequestSuccessful ((markRequestFailed ^^ n) p)) = 0"
    by (simp add: getTimeToNextRequestMs_def markRequestSuccessful_def)
  have d: "getTimeToNextRequestMs j (newBackoffPolicy (baseDelayMs p) (maxDelayMs p)) = 0"
    by (simp add: getTimeToNextRequestMs_def newBackoffPolicy_def)
  from a b c d show ?thesis by simp
qed

text \<open>
  The delays after no, one and two failures and after the success that follows, for a base
  delay of one second, a ceiling of one minute and the jitter draw 7.
\<close>

theorem backoff_delay_monotone_then_idle_witness:
  "getTimeToNextRequestMs 7 ((markRequestFailed ^^ 1) (newBackoffPolicy 1000 60000))
     \<le> getTimeToNextRequestMs 7 ((markRequestFailed ^^ 2) (newBackoffPolicy 1000 60000))
   \<and> getTimeToNextRequestMs 7 ((markRequestFailed ^^ 2) (newBackoffPolicy 1000 60000)) = 2007
   \<and> getTimeToNextRequestMs 7
        (markRequestSuccessful ((markRequestFailed ^^ 2) (newBackoffPolicy 1000 60000))) = 0"
  using backoff_delay_monotone_then_idle [of 7 1 "newBackoffPolicy 1000 60000" 7]
    backoff_delay_monotone_then_idle [of 7 2 "newBackoffPolicy 1000 60000" 7]
  by (simp add: numeral_2_eq_2 getTimeToNextRequestMs_def markRequestFailed_def
      newBackoffPolicy_def)

subsection \<open>Single calls\<close>

text \<open>
  Claim C9. Handling a HeartbeatAck at clock reading \<open>now\<close> stores \<open>now\<close> as the ack
  time and changes nothing else: every other field of the connection (the connected flag
  among them), the socket, the pending invocations and the calls made so far are as
  before. This holds in every state, connected or not.
\<close>

theorem onMessage_heartbeatAck:
  "msg_op m = kOpcodeHeartbeatAck \<Longrightarrow>
     onMessage now m w = w\<lparr>conn := (conn w)\<lparr>heartbeatAckTime_f := Some now\<rparr>\<rparr>"
  by (simp add: onMessage_def opcode_defs)

theorem onMessage_heartbeatAck_witness:
  "onMessage 1234 \<lparr>msg_op = kOpcodeHeartbeatAck, msg_heartbeat_interval = None\<rparr>
       (onConnectionEstablished (init (newBackoffPolicy 1000 60000)))
     = (onConnectionEstablished (init (newBackoffPolicy 1000 60000)))
         \<lparr>conn := (conn (onConnectionEstablished (init (newBackoffPolicy 1000 60000))))
                    \<lparr>heartbeatAckTime_f := Some 1234\<rparr>\<rparr>
   \<and> connected_f (conn (onMessage 1234
          \<lparr>msg_op = kOpcodeHeartbeatAck, msg_heartbeat_interval = None\<rparr>
          (onConnectionEstablished (init (newBackoffPolicy 1000 60000)))))"
proof -
  have h: "msg_op \<lparr>msg_op = kOpcodeHeartbeatAck, msg_heartbeat_interval = None\<rparr>
             = kOpcodeHeartbeatAck"
    by simp
  show ?thesis
    using onMessage_heartbeatAck [OF h, of 1234
        "onConnectionEstablished (init (newBackoffPolicy 1000 60000))"]
    by (simp add: onConnectionEstablished_def)
qed

text \<open>
  Claim C5, as the code has it. Take a call of \<^verbatim>\<open>sendOpcodeMessage\<close> whose argument is
  not null. When the connection is not established, it returns false, throws nothing and
  leaves the world as it is, so nothing reaches the socket. When the connection is
  established and not disposed of, the call is the call of \<^verbatim>\<open>DiscordSocket.write\<close> with
  the envelope \<^verbatim>\<open>{ op, d, s, t }\<close>, where a \<^verbatim>\<open>d\<close> that is left out or undefined is the
  empty object and an \<^verbatim>\<open>s\<close> or \<^verbatim>\<open>t\<close> that is left out or undefined is null; that
  envelope is the one call of \<^verbatim>\<open>write\<close> it adds. A call whose argument is null throws a
  TypeError in every state, and so does a call on a connection that is established and has
  been disposed of; both leave the world as it is.
\<close>

theorem sendOpcodeMessage_envelope:
  "(argument = JsNull \<longrightarrow> sendOpcodeMessage argument w = (Inl TypeError, w)) \<and>
   (argument \<noteq> JsNull \<and> \<not> connected_f (conn w) \<longrightarrow>
      sendOpcodeMessage argument w = (Inr (JsBool False), w)) \<and>
   (argument \<noteq> JsNull \<and> connected_f (conn w) \<and> socket_f (conn w) = None \<longrightarrow>
      sendOpcodeMessage argument w = (Inl TypeError, w)) \<and>
   (argument \<noteq> JsNull \<and> connected_f (conn w) \<and> socket_f (conn w) = Some TheSocket \<longrightarrow>
      sendOpcodeMessage argument w =
        socket_write
          \<lparr>env_op = property ''op'' argument,
           env_d = orDefault (property ''d'' argument) (JsObject []),
           env_s = orDefault (property ''s'' argument) JsNull,
           env_t = orDefault (property ''t'' argument) JsNull\<rparr> w \<and>
      writeCalls (snd (sendOpcodeMessage argument w)) =
        writeCalls w @
          [\<lparr>env_op = property ''op'' argument,
            env_d = orDefault (property ''d'' argument) (JsObject []),
            env_s = orDefault (property ''s'' argument) JsNull,
            env_t = orDefault (property ''t'' argument) JsNull\<rparr>] \<and>
      fst (sendOpcodeMessage argument w) = Inr JsUndefined)"
proof (cases "argument = JsUndefined")
  case True
  then show ?thesis
    by (simp add: sendOpcodeMessage_def socket_write_def orDefault_def property_def)
next
  case False
  then show ?thesis
    by (simp add: sendOpcodeMessage_def socket_write_def orDefault_def)
qed

text \<open>
  A null argument; a Heartbeat on a new connection; a Heartbeat on a connection that was
  established and then disposed of; and, on an established connection, an argument whose
  \<^verbatim>\<open>d\<close> is passed as undefined and whose \<^verbatim>\<open>t\<close> is left out.
\<close>

theorem sendOpcodeMessage_envelope_witness:
  "sendOpcodeMessage JsNull (init (newBackoffPolicy 1000 60000))
     = (Inl TypeError, init (newBackoffPolicy 1000 60000))
   \<and> sendOpcodeMessage (opOnly kOpcodeHeartbeat) (init (newBackoffPolicy 1000 60000))
     = (Inr (JsBool False), init (newBackoffPolicy 1000 60000))
   \<and> sendOpcodeMessage (opOnly kOpcodeHeartbeat)
        (snd (dispose (onConnectionEstablished (init (newBackoffPolicy 1000 60000)))))
     = (Inl TypeError,
        snd (dispose (onConnectionEstablished (init (newBackoffPolicy 1000 60000)))))
   \<and> writeCalls (snd (sendOpcodeMessage
        (JsObject [(''op'', JsNum 1), (''d'', JsUndefined), (''s'', JsNum 3)])
        (onConnectionEstablished (init (newBackoffPolicy 1000 60000)))))
     = [\<lparr>env_op = JsNum 1, env_d = JsObject [], env_s = JsNum 3, env_t = JsNull\<rparr>]"
proof -
  let ?i = "init (newBackoffPolicy 1000 60000)"
  let ?e = "onConnectionEstablished ?i"
  let ?d = "snd (dispose ?e)"
  let ?a = "JsObject [(''op'', JsNum 1), (''d'', JsUndefined), (''s'', JsNum 3)]"
  have off: "\<not> connected_f (conn ?i)"
    by (simp add: init_def)
  have on: "connected_f (conn ?e) \<and> socket_f (conn ?e) = Some TheSocket \<and> writeCalls ?e = []"
    by (simp add: onConnectionEstablished_def init_def)
  have gone: "connected_f (conn ?d) \<and> socket_f (conn ?d) = None"
    by (simp add: dispose_def socket_dispose_def socket_disconnect_def
        onConnectionEstablished_def init_def Let_def)
  have args: "opOnly kOpcodeHeartbeat \<noteq> JsNull \<and> ?a \<noteq> JsNull"
    by (simp add: opOnly_def)
  have env: "property ''op'' ?a = JsNum 1 \<and>
      orDefault (property ''d'' ?a) (JsObject []) = JsObject [] \<and>
      orDefault (property ''s'' ?a) JsNull = JsNum 3 \<and>
      orDefault (property ''t'' ?a) JsNull = JsNull"
    by (simp add: property_def orDefault_def)
  from off on gone args env
    sendOpcodeMessage_envelope [of JsNull ?i]
    sendOpcodeMessage_envelope [of "opOnly kOpcodeHeartbeat" ?i]
    sendOpcodeMessage_envelope [of "opOnly kOpcodeHeartbeat" ?d]
    sendOpcodeMessage_envelope [of ?a ?e]
  show ?thesis by (simp add: socket_write_def)
qed

text \<open>
  Claim C5 as stated fails: on a new connection, which is not established, a call with the
  argument null does not return false but throws; and on a connection that was established
  and then disposed of, a call with the Heartbeat opcode forwards nothing but throws.
\<close>

theorem sendOpcodeMessage_null_counterexample:
  "sendOpcodeMessage JsNull (init (newBackoffPolicy 1000 60000))
     = (Inl TypeError, init (newBackoffPolicy 1000 60000))
   \<and> \<not> connected_f (conn (init (newBackoffPolicy 1000 60000)))
   \<and> connected_f (conn (snd (dispose (onConnectionEstablished
        (init (newBackoffPolicy 1000 60000))))))
   \<and> sendOpcodeMessage (opOnly kOpcodeHeartbeat)
        (snd (dispose (onConnectionEstablished (init (newBackoffPolicy 1000 60000)))))
     = (Inl TypeError,
        snd (dispose (onConnectionEstablished (init (newBackoffPolicy 1000 60000)))))"
  by (simp add: sendOpcodeMessage_def orDefault_def opOnly_def dispose_def socket_dispose_def
      socket_disconnect_def onConnectionEstablished_def init_def Let_def)

text \<open>
  Claim C7, as the code has it. A message with the Reconnect or the InvalidSession opcode
  falls through to the default case of \<^verbatim>\<open>onMessage\<close>, which only logs it: the world is
  unchanged, so nothing is forwarded, nothing is written, no call is made on the platform
  socket and no connection attempt starts.
\<close>

theorem unhandled_opcode_ignored:
  "msg_op m = kOpcodeReconnect \<or> msg_op m = kOpcodeInvalidSession \<Longrightarrow> onMessage now m w = w"
  by (auto simp add: onMessage_def opcode_defs)

theorem unhandled_opcode_ignored_witness:
  "onMessage 5 \<lparr>msg_op = kOpcodeInvalidSession, msg_heartbeat_interval = None\<rparr>
       (run [Connect, ConnectWake 0, OpenDone 0 True, Established]
          (init (newBackoffPolicy 1000 60000)))
     = run [Connect, ConnectWake 0, OpenDone 0 True, Established]
         (init (newBackoffPolicy 1000 60000))"
proof -
  have h: "msg_op \<lparr>msg_op = kOpcodeInvalidSession, msg_heartbeat_interval = None\<rparr>
             = kOpcodeReconnect
         \<or> msg_op \<lparr>msg_op = kOpcodeInvalidSession, msg_heartbeat_interval = None\<rparr>
             = kOpcodeInvalidSession"
    by simp
  show ?thesis by (rule unhandled_opcode_ignored [OF h])
qed

text \<open>
  Claim C7 as stated fails: a connection is established after one successful attempt and
  receives a Reconnect. The world after \<^verbatim>\<open>onMessage\<close> is the world before it; the only
  call on the platform socket is still the \<^verbatim>\<open>open\<close> of the first attempt, no attempt is
  pending and nothing was written.
\<close>

theorem reconnect_opcode_counterexample:
  "onMessage 5 \<lparr>msg_op = kOpcodeReconnect, msg_heartbeat_interval = None\<rparr>
       (run [Connect, ConnectWake 0, OpenDone 0 True, Established]
          (init (newBackoffPolicy 1000 60000)))
     = run [Connect, ConnectWake 0, OpenDone 0 True, Established]
         (init (newBackoffPolicy 1000 60000))
   \<and> socketCalls (onMessage 5 \<lparr>msg_op = kOpcodeReconnect, msg_heartbeat_interval = None\<rparr>
       (run [Connect, ConnectWake 0, OpenDone 0 True, Established]
          (init (newBackoffPolicy 1000 60000)))) = [CallOpen 0]
   \<and> connectTasks (onMessage 5 \<lparr>msg_op = kOpcodeReconnect, msg_heartbeat_interval = None\<rparr>
       (run [Connect, ConnectWake 0, OpenDone 0 True, Established]
          (init (newBackoffPolicy 1000 60000)))) = []
   \<and> writeCalls (onMessage 5 \<lparr>msg_op = kOpcodeReconnect, msg_heartbeat_interval = None\<rparr>
       (run [Connect, ConnectWake 0, OpenDone 0 True, Established]
          (init (newBackoffPolicy 1000 60000)))) = []"
  by (simp add: model_defs opcode_defs init_def Let_def)

text \<open>
  Claim C6, as the code has it. \<^verbatim>\<open>DiscordSocket.connect\<close> called while a connection token
  is stored (an attempt is in progress) throws, and the world stays as it is: no second
  loop starts. \<^verbatim>\<open>DiscordSocket.write\<close> throws in no state: it returns undefined whether
  or not the socket is connected.
\<close>

theorem socket_usage_errors:
  "(connectionToken_f (sock w) \<noteq> None \<longrightarrow> socket_connect w = (Inl AttemptInProgress, w)) \<and>
   fst (socket_write message w) = Inr JsUndefined"
  by (simp add: socket_connect_def socket_write_def)

theorem socket_usage_errors_witness:
  "connectionToken_f (sock (snd (socket_connect (init (newBackoffPolicy 1000 60000))))) \<noteq> None \<and>
   socket_connect (snd (socket_connect (init (newBackoffPolicy 1000 60000))))
     = (Inl AttemptInProgress, snd (socket_connect (init (newBackoffPolicy 1000 60000)))) \<and>
   fst (socket_write \<lparr>env_op = JsNum 1, env_d = JsObject [], env_s = JsNull, env_t = JsNull\<rparr>
          (init (newBackoffPolicy 1000 60000))) = Inr JsUndefined"
proof -
  have h: "connectionToken_f (sock (snd (socket_connect (init (newBackoffPolicy 1000 60000)))))
             \<noteq> None"
    by (simp add: socket_connect_def suspend_def init_def Let_def)
  show ?thesis
    using h
      socket_usage_errors [of "snd (socket_connect (init (newBackoffPolicy 1000 60000)))"
        "\<lparr>env_op = JsNum 1, env_d = JsObject [], env_s = JsNull, env_t = JsNull\<rparr>"]
      socket_usage_errors [of "init (newBackoffPolicy 1000 60000)"
        "\<lparr>env_op = JsNum 1, env_d = JsObject [], env_s = JsNull, env_t = JsNull\<rparr>"]
    by simp
qed

text \<open>
  Claim C6 as stated fails: the second of two calls of \<^verbatim>\<open>DiscordSocket.connect\<close> in a
  row throws.
\<close>

theorem socket_connect_twice_counterexample:
  "fst (socket_connect (snd (socket_connect (init (newBackoffPolicy 1000 60000)))))
     = Inl AttemptInProgress"
  by (simp add: socket_connect_def suspend_def init_def Let_def)

subsection \<open>Invariants of executions\<close>

lemma run_append: "run (xs @ ys) w = run ys (run xs w)"
  by (induction xs arbitrary: w) simp_all

lemma run_snoc: "run (evs @ [ev]) w = step ev (run evs w)"
  by (simp add: run_append)

lemma map_of_filter_key:
  "map_of (filter (\<lambda>e. fst e \<noteq> k) xs) t = (if t = k then None else map_of xs t)"
  by (induction xs) auto

lemma disposed_step: "disposed_f (sock (step ev w)) = disposed_f (sock w)"
  by (cases ev)
    (auto simp add: step_defs send_frame Let_def
      split: option.splits stage.splits SocketState.splits socket_ref.splits)

lemma disposed_run: "disposed_f (sock (run evs w)) = disposed_f (sock w)"
  by (induction evs arbitrary: w) (simp_all add: disposed_step)

lemma socket_ref_step: "socket_f (conn (step ev w)) = socket_f (conn w)"
  by (cases ev)
    (auto simp add: step_defs send_frame Let_def
      split: option.splits stage.splits SocketState.splits socket_ref.splits)

lemma socket_ref_run: "socket_f (conn (run evs w)) = socket_f (conn w)"
  by (induction evs arbitrary: w) (simp_all add: socket_ref_step)

lemma fresh_init: "fresh (init p)"
  by (simp add: fresh_def init_def)

lemma fresh_step: "fresh w \<Longrightarrow> fresh (step ev w)"
proof (cases ev)
  case Connect
  assume "fresh w" then show ?thesis unfolding Connect fresh_def
    by (auto simp add: step_defs send_frame Let_def map_of_filter_key less_Suc_eq
        split: if_splits option.splits socket_ref.splits)
next
  case Disconnect
  assume "fresh w" then show ?thesis unfolding Disconnect fresh_def
    by (auto simp add: step_defs send_frame Let_def
        split: SocketState.splits option.splits socket_ref.splits)
next
  case (Send a)
  assume "fresh w" then show ?thesis unfolding Send fresh_def
    by (auto simp add: step_defs send_frame Let_def split: option.splits socket_ref.splits)
next
  case Established
  assume "fresh w" then show ?thesis unfolding Established fresh_def
    by (auto simp add: step_defs send_frame)
next
  case Closed
  assume "fresh w" then show ?thesis unfolding Closed fresh_def
    by (auto simp add: step_defs send_frame)
next
  case Failed
  assume "fresh w" then show ?thesis unfolding Failed fresh_def
    by (auto simp add: step_defs send_frame)
next
  case (Message now m)
  assume "fresh w" then show ?thesis unfolding Message fresh_def
    by (auto simp add: step_defs send_frame Let_def less_Suc_eq)
next
  case (ConnectWake tok)
  assume "fresh w" then show ?thesis unfolding ConnectWake fresh_def
    by (auto simp add: step_defs send_frame Let_def map_of_filter_key
        split: option.splits stage.splits if_splits)
next
  case (OpenDone tok b)
  assume "fresh w" then show ?thesis unfolding OpenDone fresh_def
    by (auto simp add: step_defs send_frame Let_def map_of_filter_key
        split: option.splits stage.splits if_splits)
next
  case (MonitorWake tok)
  assume "fresh w" then show ?thesis unfolding MonitorWake fresh_def
    by (auto simp add: step_defs send_frame Let_def)
next
  case (Platform st)
  assume "fresh w" then show ?thesis unfolding Platform fresh_def
    by auto
qed

lemma fresh_run: "fresh w \<Longrightarrow> fresh (run evs w)"
  by (induction evs arbitrary: w) (simp_all add: fresh_step)

subsection \<open>Disconnecting\<close>

text \<open>
  Claim C1 on the code. A connection is established, receives a Hello with an interval of
  41250 ms, which starts the heartbeat monitor with token 0, and is disconnected. After
  \<^verbatim>\<open>disconnect()\<close> the stored monitor token is still token 0 and the monitor is still
  pending; when its wait ends it passes the token check and hands a Heartbeat to
  \<^verbatim>\<open>DiscordSocket.write\<close>.
\<close>

theorem disconnect_keeps_heartbeat_monitor:
  "heartbeatMonitorToken_f (conn (run
       [Established, Message 0 \<lparr>msg_op = kOpcodeHello, msg_heartbeat_interval = Some 41250\<rparr>,
        Disconnect] (init (newBackoffPolicy 1000 60000)))) = Some 0
   \<and> monitorTasks (run
       [Established, Message 0 \<lparr>msg_op = kOpcodeHello, msg_heartbeat_interval = Some 41250\<rparr>,
        Disconnect] (init (newBackoffPolicy 1000 60000))) = [0]
   \<and> writeCalls (run
       [Established, Message 0 \<lparr>msg_op = kOpcodeHello, msg_heartbeat_interval = Some 41250\<rparr>,
        Disconnect, MonitorWake 0] (init (newBackoffPolicy 1000 60000)))
     = [\<lparr>env_op = JsNum kOpcodeHeartbeat, env_d = JsObject [], env_s = JsNull, env_t = JsNull\<rparr>]"
  by (simp add: model_defs opcode_defs intervalTooLow_def init_def Let_def)

lemma unopened_step: "unopened tok w \<Longrightarrow> unopened tok (step ev w)"
proof (cases ev)
  case Connect
  assume "unopened tok w" then show ?thesis unfolding Connect unopened_def
    by (auto simp add: step_defs send_frame Let_def map_of_filter_key
        split: if_splits option.splits socket_ref.splits)
next
  case Disconnect
  assume "unopened tok w" then show ?thesis unfolding Disconnect unopened_def
    by (auto simp add: step_defs send_frame Let_def
        split: SocketState.splits option.splits socket_ref.splits)
next
  case (Send a)
  assume "unopened tok w" then show ?thesis unfolding Send unopened_def
    by (auto simp add: step_defs send_frame Let_def split: option.splits socket_ref.splits)
next
  case Established
  assume "unopened tok w" then show ?thesis unfolding Established unopened_def
    by (auto simp add: step_defs send_frame)
next
  case Closed
  assume "unopened tok w" then show ?thesis unfolding Closed unopened_def
    by (auto simp add: step_defs send_frame)
next
  case Failed
  assume "unopened tok w" then show ?thesis unfolding Failed unopened_def
    by (auto simp add: step_defs send_frame)
next
  case (Message now m)
  assume "unopened tok w" then show ?thesis unfolding Message unopened_def
    by (auto simp add: step_defs send_frame Let_def)
next
  case (ConnectWake t)
  assume "unopened tok w" then show ?thesis unfolding ConnectWake unopened_def
    by (auto simp add: step_defs send_frame Let_def map_of_filter_key
        split: option.splits stage.splits if_splits)
next
  case (OpenDone t b)
  assume "unopened tok w" then show ?thesis unfolding OpenDone unopened_def
    by (auto simp add: step_defs send_frame Let_def map_of_filter_key
        split: option.splits stage.splits if_splits)
next
  case (MonitorWake t)
  assume "unopened tok w" then show ?thesis unfolding MonitorWake unopened_def
    by (auto simp add: step_defs send_frame Let_def)
next
  case (Platform st)
  assume "unopened tok w" then show ?thesis unfolding Platform unopened_def
    by auto
qed

lemma unopened_run: "unopened tok w \<Longrightarrow> unopened tok (run evs w)"
  by (induction evs arbitrary: w) (simp_all add: unopened_step)

lemma unopened_disconnect:
  assumes "fresh w" and "map_of (connectTasks w) tok = Some AwaitInitialWait"
    and "\<not> disposed_f (sock w)" and "socket_f (conn w) = Some TheSocket"
  shows "unopened tok (snd (disconnect w))"
  using assms unfolding fresh_def unopened_def
  by (auto simp add: step_defs Let_def split: SocketState.splits)

text \<open>
  Claim C4. Take any execution \<open>evs1\<close> after which the invocation of
  \<^verbatim>\<open>DiscordSocket.connect\<close> with token \<open>tok\<close> is still in its initial back-off wait, call
  \<^verbatim>\<open>disconnect()\<close>, and let anything \<open>evs2\<close> happen afterwards (the end of that wait and
  new calls of \<^verbatim>\<open>connect()\<close> among it): no \<^verbatim>\<open>open\<close> is ever called on the platform socket
  for the attempt \<open>tok\<close>.
\<close>

theorem disconnect_in_initial_wait_never_opens:
  assumes "stageOf tok (run evs1 (init p)) = Some AwaitInitialWait"
  shows "CallOpen tok \<notin> set (socketCalls (run (evs1 @ Disconnect # evs2) (init p)))"
proof -
  let ?w = "run evs1 (init p)"
  have f: "fresh ?w" by (simp add: fresh_run fresh_init)
  have d: "\<not> disposed_f (sock ?w)" by (simp add: disposed_run init_def)
  from assms have m: "map_of (connectTasks ?w) tok = Some AwaitInitialWait"
    by (simp add: stageOf_def)
  have r: "socket_f (conn ?w) = Some TheSocket" by (simp add: socket_ref_run init_def)
  from f m d r have "unopened tok (snd (disconnect ?w))" by (rule unopened_disconnect)
  then have "unopened tok (run evs2 (snd (disconnect ?w)))" by (rule unopened_run)
  then show ?thesis by (simp add: run_append unopened_def)
qed

text \<open>
  The first attempt is disconnected in its initial wait; its wait ends and a second attempt
  is started and opens: the one \<^verbatim>\<open>open\<close> is that of the second attempt.
\<close>

theorem disconnect_in_initial_wait_never_opens_witness:
  "stageOf 0 (run [Connect] (init (newBackoffPolicy 1000 60000))) = Some AwaitInitialWait \<and>
   CallOpen 0 \<notin> set (socketCalls
      (run ([Connect] @ Disconnect # [ConnectWake 0, Connect, ConnectWake 1])
         (init (newBackoffPolicy 1000 60000)))) \<and>
   socketCalls (run ([Connect] @ Disconnect # [ConnectWake 0, Connect, ConnectWake 1])
      (init (newBackoffPolicy 1000 60000))) = [CallOpen 1]"
proof -
  have h: "stageOf 0 (run [Connect] (init (newBackoffPolicy 1000 60000)))
             = Some AwaitInitialWait"
    by (simp add: model_defs init_def Let_def)
  have c: "socketCalls (run ([Connect] @ Disconnect # [ConnectWake 0, Connect, ConnectWake 1])
      (init (newBackoffPolicy 1000 60000))) = [CallOpen 1]"
    by (simp add: model_defs init_def Let_def)
  show ?thesis
    using h c
      disconnect_in_initial_wait_never_opens [OF h, of "[ConnectWake 0, Connect, ConnectWake 1]"]
    by simp
qed

subsection \<open>Connecting twice\<close>

lemma oneLoop_step: "oneLoop w \<Longrightarrow> ev \<noteq> Disconnect \<Longrightarrow> oneLoop (step ev w)"
proof (cases ev)
  case Connect
  assume "oneLoop w" then show ?thesis unfolding Connect oneLoop_def
    by (auto simp add: step_defs send_frame Let_def split: if_splits option.splits socket_ref.splits)
next
  case Disconnect
  assume "ev \<noteq> Disconnect" with Disconnect show ?thesis by simp
next
  case (Send a)
  assume "oneLoop w" then show ?thesis unfolding Send oneLoop_def
    by (auto simp add: step_defs send_frame Let_def split: option.splits socket_ref.splits)
next
  case Established
  assume "oneLoop w" then show ?thesis unfolding Established oneLoop_def
    by (auto simp add: step_defs send_frame)
next
  case Closed
  assume "oneLoop w" then show ?thesis unfolding Closed oneLoop_def
    by (auto simp add: step_defs send_frame)
next
  case Failed
  assume "oneLoop w" then show ?thesis unfolding Failed oneLoop_def
    by (auto simp add: step_defs send_frame)
next
  case (Message now m)
  assume "oneLoop w" then show ?thesis unfolding Message oneLoop_def
    by (auto simp add: step_defs send_frame Let_def)
next
  case (ConnectWake t)
  assume "oneLoop w" then show ?thesis unfolding ConnectWake oneLoop_def
    by (auto simp add: step_defs send_frame Let_def split: option.splits stage.splits if_splits)
next
  case (OpenDone t b)
  assume "oneLoop w" then show ?thesis unfolding OpenDone oneLoop_def
    by (auto simp add: step_defs send_frame Let_def split: option.splits stage.splits if_splits)
next
  case (MonitorWake t)
  assume "oneLoop w" then show ?thesis unfolding MonitorWake oneLoop_def
    by (auto simp add: step_defs send_frame Let_def)
next
  case (Platform st)
  assume "oneLoop w" then show ?thesis unfolding Platform oneLoop_def
    by auto
qed

lemma oneLoop_run: "oneLoop w \<Longrightarrow> Disconnect \<notin> set evs \<Longrightarrow> oneLoop (run evs w)"
  by (induction evs arbitrary: w) (auto simp add: oneLoop_step)

lemma connect_twice: "connect (snd (connect w)) = (Inr (), snd (connect w))"
  by (simp add: connect_def internalConnect_def socket_connect_def suspend_def Let_def
      split: option.splits socket_ref.splits)

lemma connect_rejected:
  assumes "\<not> connecting_f (conn w)" and "socket_f (conn w) = Some TheSocket"
    and "connectionToken_f (sock w) \<noteq> None"
  shows "fst (connect w) = Inl AttemptInProgress \<and>
     connectTasks (snd (connect w)) = connectTasks w \<and>
     socketCalls (snd (connect w)) = socketCalls w"
  using assms by (simp add: connect_def internalConnect_def socket_connect_def Let_def)

lemma connect_starts:
  assumes "\<not> connecting_f (conn w)" and "socket_f (conn w) = Some TheSocket"
    and "connectionToken_f (sock w) = None"
  shows "fst (connect w) = Inr () \<and>
     connectionToken_f (sock (snd (connect w))) = Some (symbols w) \<and>
     stageOf (symbols w) (snd (connect w)) = Some AwaitInitialWait"
  using assms
  by (simp add: connect_def internalConnect_def socket_connect_def suspend_def stageOf_def
      map_add_def map_of_filter_key Let_def)

lemma connect_while_connecting:
  "connecting_f (conn w) \<Longrightarrow> connect w = (Inr (), w\<lparr>conn := (conn w)\<lparr>connect_f := True\<rparr>\<rparr>)"
  by (simp add: connect_def Let_def)

lemma filter_current_le_1:
  "distinct (map fst xs) \<Longrightarrow> length (filter (\<lambda>e. k = Some (fst e)) xs) \<le> Suc 0"
proof (induction xs)
  case Nil
  then show ?case by simp
next
  case (Cons x xs)
  show ?case
  proof (cases "k = Some (fst x)")
    case True
    with Cons.prems have "filter (\<lambda>e. k = Some (fst e)) xs = []"
      by (auto simp add: filter_empty_conv)
    with True show ?thesis by simp
  next
    case False
    with Cons show ?thesis by simp
  qed
qed

lemma distinct_tokens_step:
  "distinct (map fst (connectTasks w)) \<Longrightarrow> distinct (map fst (connectTasks (step ev w)))"
  by (cases ev)
    (auto simp add: step_defs send_frame Let_def distinct_map_filter
      split: option.splits stage.splits SocketState.splits socket_ref.splits)

lemma distinct_tokens_run:
  "distinct (map fst (connectTasks w)) \<Longrightarrow> distinct (map fst (connectTasks (run evs w)))"
  by (induction evs arbitrary: w) (simp_all add: distinct_tokens_step)

text \<open>
  Claim C3, as the code has it. A call of \<^verbatim>\<open>connect()\<close> right after a call of
  \<^verbatim>\<open>connect()\<close> returns normally and leaves the world as the first call left it; more
  generally, while the connecting flag is set, \<^verbatim>\<open>connect()\<close> only sets the intent flag
  again and starts nothing. Once \<^verbatim>\<open>onConnectionEstablished()\<close> has cleared the
  connecting flag, \<^verbatim>\<open>connect()\<close> is not a no-op: while the socket still stores a
  connection token it is rejected with the error of an attempt in progress and starts
  nothing, and when the socket stores none it starts a new attempt, in its initial wait.
  In every execution without a call of \<^verbatim>\<open>disconnect()\<close>, whatever else happens and
  however often \<^verbatim>\<open>connect()\<close> is called, at most one invocation of the retry loop of
  \<^verbatim>\<open>DiscordSocket.connect\<close> is pending. In every execution at all, at most one pending
  invocation holds the stored connection token, that is, is not superseded.
\<close>

theorem second_connect_starts_no_second_loop:
  "connect (snd (connect w)) = (Inr (), snd (connect w)) \<and>
   (connecting_f (conn w) \<longrightarrow>
      connect w = (Inr (), w\<lparr>conn := (conn w)\<lparr>connect_f := True\<rparr>\<rparr>)) \<and>
   (\<not> connecting_f (conn w) \<and> socket_f (conn w) = Some TheSocket \<and>
    connectionToken_f (sock w) \<noteq> None \<longrightarrow>
      fst (connect w) = Inl AttemptInProgress \<and>
      connectTasks (snd (connect w)) = connectTasks w \<and>
      socketCalls (snd (connect w)) = socketCalls w) \<and>
   (\<not> connecting_f (conn w) \<and> socket_f (conn w) = Some TheSocket \<and>
    connectionToken_f (sock w) = None \<longrightarrow>
      fst (connect w) = Inr () \<and>
      connectionToken_f (sock (snd (connect w))) = Some (symbols w) \<and>
      stageOf (symbols w) (snd (connect w)) = Some AwaitInitialWait) \<and>
   (Disconnect \<notin> set evs \<longrightarrow> length (connectTasks (run evs (init p))) \<le> 1) \<and>
   length (filter (\<lambda>e. connectionToken_f (sock (run evs (init p))) = Some (fst e))
             (connectTasks (run evs (init p)))) \<le> 1"
proof -
  have a: "connect (snd (connect w)) = (Inr (), snd (connect w))" by (rule connect_twice)
  have b: "length (connectTasks (run evs (init p))) \<le> 1" if "Disconnect \<notin> set evs"
  proof -
    have "oneLoop (init p)" by (simp add: oneLoop_def init_def)
    then have "oneLoop (run evs (init p))" using that by (rule oneLoop_run)
    then show ?thesis by (auto simp add: oneLoop_def)
  qed
  have "distinct (map fst (connectTasks (init p)))" by (simp add: init_def)
  then have "distinct (map fst (connectTasks (run evs (init p))))"
    by (rule distinct_tokens_run)
  then have c: "length (filter (\<lambda>e. connectionToken_f (sock (run evs (init p))) = Some (fst e))
             (connectTasks (run evs (init p)))) \<le> 1"
    using filter_current_le_1 [of "connectTasks (run evs (init p))"] by simp
  from a b c connect_while_connecting [of w] connect_rejected [of w] connect_starts [of w]
  show ?thesis by simp
qed

text \<open>
  Two calls of \<^verbatim>\<open>connect()\<close>, a failed attempt, and a third call during the retry wait:
  the one pending invocation is the first. Then the two cases of a call after
  \<^verbatim>\<open>onConnectionEstablished()\<close>: during the initial wait of the first attempt, and after
  that attempt has succeeded.
\<close>

theorem second_connect_starts_no_second_loop_witness:
  "Disconnect \<notin> set [Connect, Connect, ConnectWake 0, OpenDone 0 False, Connect] \<and>
   connectTasks (run [Connect, Connect, ConnectWake 0, OpenDone 0 False, Connect]
      (init (newBackoffPolicy 1000 60000))) = [(0, AwaitRetryWait)] \<and>
   length (connectTasks (run [Connect, Connect, ConnectWake 0, OpenDone 0 False, Connect]
      (init (newBackoffPolicy 1000 60000)))) \<le> 1 \<and>
   connecting_f (conn (snd (connect (init (newBackoffPolicy 1000 60000))))) \<and>
   snd (connect (snd (connect (init (newBackoffPolicy 1000 60000)))))
     = snd (connect (init (newBackoffPolicy 1000 60000))) \<and>
   fst (connect (run [Connect, Established] (init (newBackoffPolicy 1000 60000))))
     = Inl AttemptInProgress \<and>
   connectTasks (snd (connect (run [Connect, Established]
      (init (newBackoffPolicy 1000 60000))))) = [(0, AwaitInitialWait)] \<and>
   stageOf 1 (snd (connect (run [Connect, ConnectWake 0, OpenDone 0 True, Established]
      (init (newBackoffPolicy 1000 60000))))) = Some AwaitInitialWait"
proof -
  let ?i = "init (newBackoffPolicy 1000 60000)"
  let ?busy = "run [Connect, Established] ?i"
  let ?idle = "run [Connect, ConnectWake 0, OpenDone 0 True, Established] ?i"
  have h: "Disconnect \<notin> set [Connect, Connect, ConnectWake 0, OpenDone 0 False, Connect]"
    by simp
  have t: "connectTasks (run [Connect, Connect, ConnectWake 0, OpenDone 0 False, Connect] ?i)
             = [(0, AwaitRetryWait)]"
    by (simp add: model_defs init_def Let_def)
  have c: "connecting_f (conn (snd (connect ?i)))"
    by (simp add: model_defs init_def Let_def)
  have busy: "\<not> connecting_f (conn ?busy) \<and> socket_f (conn ?busy) = Some TheSocket \<and>
      connectionToken_f (sock ?busy) \<noteq> None \<and> connectTasks ?busy = [(0, AwaitInitialWait)]"
    by (simp add: model_defs init_def Let_def)
  have idle: "\<not> connecting_f (conn ?idle) \<and> socket_f (conn ?idle) = Some TheSocket \<and>
      connectionToken_f (sock ?idle) = None \<and> symbols ?idle = 1"
    by (simp add: model_defs init_def Let_def)
  from h t c busy idle
    second_connect_starts_no_second_loop [of ?i
      "[Connect, Connect, ConnectWake 0, OpenDone 0 False, Connect]"
      "newBackoffPolicy 1000 60000"]
    second_connect_starts_no_second_loop [of ?busy]
    second_connect_starts_no_second_loop [of ?idle]
  show ?thesis by simp
qed

text \<open>
  Claim C3 as stated fails: the second call of \<^verbatim>\<open>connect()\<close>, with no call of
  \<^verbatim>\<open>disconnect()\<close> before it, is not a no-op once \<^verbatim>\<open>onConnectionEstablished()\<close> has
  been called. During the first attempt it is rejected with an error and sets the
  connecting flag again; after the first attempt has succeeded it starts a second attempt,
  which calls \<^verbatim>\<open>open\<close> on the platform socket a second time.
\<close>

theorem connect_after_established_counterexample:
  "fst (connect (run [Connect, Established] (init (newBackoffPolicy 1000 60000))))
     = Inl AttemptInProgress
   \<and> \<not> connecting_f (conn (run [Connect, Established] (init (newBackoffPolicy 1000 60000))))
   \<and> connecting_f (conn (run [Connect, Established, Connect]
        (init (newBackoffPolicy 1000 60000))))
   \<and> connectTasks (run [Connect, ConnectWake 0, OpenDone 0 True, Established]
        (init (newBackoffPolicy 1000 60000))) = []
   \<and> connectTasks (run [Connect, ConnectWake 0, OpenDone 0 True, Established, Connect]
        (init (newBackoffPolicy 1000 60000))) = [(1, AwaitInitialWait)]
   \<and> socketCalls (run
        [Connect, ConnectWake 0, OpenDone 0 True, Established, Connect, ConnectWake 1]
        (init (newBackoffPolicy 1000 60000))) = [CallOpen 0, CallOpen 1]"
  by (simp add: model_defs init_def Let_def)

subsection \<open>The heartbeat monitor\<close>

lemma retired_step: "retired tok w \<Longrightarrow> retired tok (step ev w)"
  unfolding retired_def
  by (cases ev)
    (auto simp add: step_defs send_frame Let_def
      split: option.splits stage.splits SocketState.splits socket_ref.splits)

lemma retired_run: "retired tok w \<Longrightarrow> retired tok (run evs w)"
  by (induction evs arbitrary: w) (simp_all add: retired_step)

lemma retired_wake:
  "retired tok w \<Longrightarrow>
     writeCalls (step (MonitorWake tok) w) = writeCalls w \<and>
     tok \<notin> set (monitorTasks (step (MonitorWake tok) w))"
  by (simp add: retired_def monitor_afterWait_def)

text \<open>
  Claim C10. \<^verbatim>\<open>heartbeatMonitor()\<close> stores a token that is a new symbol in every state,
  whether the check of the interval then passes or throws. Take a monitor \<open>tok\<close> that is
  pending after an execution \<open>evs1\<close>, let \<^verbatim>\<open>heartbeatMonitor()\<close> be called, directly or
  by \<^verbatim>\<open>onMessage\<close> for a Hello, and let anything \<open>evs2\<close> happen: \<open>tok\<close> is never the
  stored token again, and when the wait of that monitor ends it writes nothing and is no
  longer pending.
\<close>

theorem heartbeatMonitor_retires_earlier_monitors:
  "heartbeatMonitorToken_f (conn (snd (heartbeatMonitor w))) = Some (symbols w) \<and>
   (tok \<in> set (monitorTasks (run evs1 (init p))) \<and>
    (w' = snd (heartbeatMonitor (run evs1 (init p))) \<or>
     w' = onMessage now m (run evs1 (init p)) \<and> msg_op m = kOpcodeHello) \<longrightarrow>
      heartbeatMonitorToken_f (conn (run evs2 w')) \<noteq> Some tok \<and>
      writeCalls (step (MonitorWake tok) (run evs2 w')) = writeCalls (run evs2 w') \<and>
      tok \<notin> set (monitorTasks (step (MonitorWake tok) (run evs2 w'))))"
proof -
  have a: "heartbeatMonitorToken_f (conn (snd (heartbeatMonitor w))) = Some (symbols w)"
    by (simp add: heartbeatMonitor_def Let_def)
  have b: "retired tok (run evs2 w')"
    if pending: "tok \<in> set (monitorTasks (run evs1 (init p)))"
      and call: "w' = snd (heartbeatMonitor (run evs1 (init p))) \<or>
         w' = onMessage now m (run evs1 (init p)) \<and> msg_op m = kOpcodeHello"
  proof -
    have "fresh (run evs1 (init p))" by (simp add: fresh_run fresh_init)
    with pending have created: "tok < symbols (run evs1 (init p))" by (simp add: fresh_def)
    from call have "retired tok w'"
    proof
      assume "w' = snd (heartbeatMonitor (run evs1 (init p)))"
      with created show ?thesis by (simp add: retired_def heartbeatMonitor_def Let_def)
    next
      assume "w' = onMessage now m (run evs1 (init p)) \<and> msg_op m = kOpcodeHello"
      with created show ?thesis
        by (simp add: retired_def onMessage_def identify_def heartbeatMonitor_def
            opcode_defs Let_def)
    qed
    then show ?thesis by (rule retired_run)
  qed
  show ?thesis
    using a b retired_wake [of tok "run evs2 w'"]
    by (auto simp add: retired_def)
qed

text \<open>
  A monitor runs with token 0; the connection is established anew, which clears the
  interval; \<^verbatim>\<open>heartbeatMonitor()\<close> then throws, but has stored token 1, and the monitor
  with token 0 writes nothing when its wait ends.
\<close>

theorem heartbeatMonitor_retires_earlier_monitors_witness:
  "0 \<in> set (monitorTasks (run
      [Established, Message 0 \<lparr>msg_op = kOpcodeHello, msg_heartbeat_interval = Some 41250\<rparr>,
       Established] (init (newBackoffPolicy 1000 60000)))) \<and>
   heartbeatMonitor (run
      [Established, Message 0 \<lparr>msg_op = kOpcodeHello, msg_heartbeat_interval = Some 41250\<rparr>,
       Established] (init (newBackoffPolicy 1000 60000)))
     = (Inl IntervalTooLow, (run
      [Established, Message 0 \<lparr>msg_op = kOpcodeHello, msg_heartbeat_interval = Some 41250\<rparr>,
       Established] (init (newBackoffPolicy 1000 60000)))
        \<lparr>symbols := 2,
         conn := (conn (run
      [Established, Message 0 \<lparr>msg_op = kOpcodeHello, msg_heartbeat_interval = Some 41250\<rparr>,
       Established] (init (newBackoffPolicy 1000 60000))))\<lparr>heartbeatMonitorToken_f := Some 1\<rparr>\<rparr>) \<and>
   writeCalls (step (MonitorWake 0) (run [Platform kStateConnected] (snd (heartbeatMonitor (run
      [Established, Message 0 \<lparr>msg_op = kOpcodeHello, msg_heartbeat_interval = Some 41250\<rparr>,
       Established] (init (newBackoffPolicy 1000 60000))))))) = [] \<and>
   0 \<notin> set (monitorTasks (step (MonitorWake 0) (run [Platform kStateConnected]
      (snd (heartbeatMonitor (run
      [Established, Message 0 \<lparr>msg_op = kOpcodeHello, msg_heartbeat_interval = Some 41250\<rparr>,
       Established] (init (newBackoffPolicy 1000 60000))))))))"
proof -
  let ?w = "run
      [Established, Message 0 \<lparr>msg_op = kOpcodeHello, msg_heartbeat_interval = Some 41250\<rparr>,
       Established] (init (newBackoffPolicy 1000 60000))"
  have h: "0 \<in> set (monitorTasks ?w)"
    by (simp add: model_defs opcode_defs intervalTooLow_def init_def Let_def)
  have e: "heartbeatMonitor ?w
     = (Inl IntervalTooLow,
        ?w\<lparr>symbols := 2, conn := (conn ?w)\<lparr>heartbeatMonitorToken_f := Some 1\<rparr>\<rparr>)"
    by (simp add: model_defs opcode_defs intervalTooLow_def init_def Let_def)
  have n: "writeCalls (run [Platform kStateConnected] (snd (heartbeatMonitor ?w))) = []"
    by (simp add: model_defs opcode_defs intervalTooLow_def init_def Let_def)
  from h heartbeatMonitor_retires_earlier_monitors
      [of ?w 0 "[Established, Message 0
          \<lparr>msg_op = kOpcodeHello, msg_heartbeat_interval = Some 41250\<rparr>, Established]"
        "newBackoffPolicy 1000 60000" "snd (heartbeatMonitor ?w)" _ _
        "[Platform kStateConnected]"]
  have "writeCalls (step (MonitorWake 0) (run [Platform kStateConnected] (snd (heartbeatMonitor ?w))))
          = writeCalls (run [Platform kStateConnected] (snd (heartbeatMonitor ?w))) \<and>
        0 \<notin> set (monitorTasks (step (MonitorWake 0)
            (run [Platform kStateConnected] (snd (heartbeatMonitor ?w)))))"
    by blast
  with h e n show ?thesis by simp
qed

lemma monitoring_step:
  assumes "monitorTasks (step ev w) \<noteq> [] \<or> heartbeats (step ev w) \<noteq> []"
    and "\<not> appHeartbeat ev"
  shows "monitorTasks w \<noteq> [] \<or> heartbeats w \<noteq> [] \<or> acceptedHello ev"
proof (cases ev)
  case (Send a)
  with assms send_heartbeats [of a w] show ?thesis
    by (auto simp add: send_frame)
next
  case (Message now m)
  have "property ''op'' (opOnly kOpcodeHeartbeatAck) \<noteq> JsNum kOpcodeHeartbeat"
    by (simp add: property_def opOnly_def opcode_defs)
  with assms Message send_heartbeats [of "opOnly kOpcodeHeartbeatAck" w] show ?thesis
    by (auto simp add: heartbeats_def step_defs send_frame intervalTooLow_def opcode_defs
        Let_def split: if_splits option.splits)
next
  case (MonitorWake tok)
  with assms show ?thesis
    by (auto split: if_splits)
qed (use assms in \<open>auto simp add: heartbeats_def step_defs Let_def
      split: option.splits stage.splits SocketState.splits socket_ref.splits if_splits\<close>)

lemma monitoring_needs_hello:
  "\<forall>ev \<in> set evs. \<not> appHeartbeat ev \<Longrightarrow>
     monitorTasks (run evs (init p)) \<noteq> [] \<or> heartbeats (run evs (init p)) \<noteq> [] \<Longrightarrow>
     \<exists>ev \<in> set evs. acceptedHello ev"
proof (induction evs rule: rev_induct)
  case Nil
  then show ?case by (simp add: init_def heartbeats_def)
next
  case (snoc ev evs)
  from snoc.prems have na: "\<not> appHeartbeat ev" and nas: "\<forall>e \<in> set evs. \<not> appHeartbeat e"
    by simp_all
  from snoc.prems(2) have
    "monitorTasks (step ev (run evs (init p))) \<noteq> []
       \<or> heartbeats (step ev (run evs (init p))) \<noteq> []"
    by (simp add: run_snoc)
  from monitoring_step [OF this na] snoc.IH [OF nas] show ?case by auto
qed

lemma guarded_step: "guarded w \<Longrightarrow> allowed ev w \<Longrightarrow> guarded (step ev w)"
  unfolding guarded_def
  by (cases ev)
    (auto simp add: step_defs send_frame Let_def less_Suc_eq
      split: option.splits stage.splits SocketState.splits socket_ref.splits if_splits)

lemma guarded_run: "guarded w \<Longrightarrow> lifecycle evs w \<Longrightarrow> guarded (run evs w)"
  by (induction evs arbitrary: w) (simp_all add: guarded_step)

lemma guarded_wake:
  assumes "guarded w" and "writeCalls (step (MonitorWake tok) w) \<noteq> writeCalls w"
  shows "\<not> intervalTooLow (heartbeatIntervalMs_f (conn w))"
  using assms unfolding guarded_def
  by (auto simp add: step_defs send_frame split: if_splits)

text \<open>
  Claim C2, as the code has it. \<^verbatim>\<open>heartbeatMonitor()\<close> called with a recorded interval
  that is missing or below ten seconds throws, starts no monitor and writes nothing. In
  every execution in which the application does not itself send the Heartbeat opcode, a
  Heartbeat among the calls of \<^verbatim>\<open>DiscordSocket.write\<close> means that a Hello was handled
  before whose recorded interval is at least ten seconds, the recorded interval being the
  \<^verbatim>\<open>heartbeat_interval\<close> of the Hello or, when the Hello has none, the default of
  41250 ms. And in every execution of a transport that follows the life of the connection,
  whenever the end of a monitor's wait writes something, the interval recorded at that
  moment is at least ten seconds.
\<close>

theorem heartbeat_needs_accepted_interval:
  "((case heartbeatIntervalMs_f (conn w) of
       None \<Rightarrow> True | Some ms \<Rightarrow> ms < kMinimumHeartbeatMonitorMs) \<longrightarrow>
      fst (heartbeatMonitor w) = Inl IntervalTooLow \<and>
      monitorTasks (snd (heartbeatMonitor w)) = monitorTasks w \<and>
      writeCalls (snd (heartbeatMonitor w)) = writeCalls w)
   \<and> ((\<forall>a. Send a \<in> set evs \<longrightarrow> property ''op'' a \<noteq> JsNum kOpcodeHeartbeat) \<and>
       (\<exists>e \<in> set (writeCalls (run evs (init p))). env_op e = JsNum kOpcodeHeartbeat) \<longrightarrow>
       (\<exists>now m. Message now m \<in> set evs \<and> msg_op m = kOpcodeHello \<and>
          kMinimumHeartbeatMonitorMs
            \<le> (case msg_heartbeat_interval m of None \<Rightarrow> 41250 | Some ms \<Rightarrow> ms)))
   \<and> (lifecycle evs' (init p') \<and>
       writeCalls (step (MonitorWake tok) (run evs' (init p')))
         \<noteq> writeCalls (run evs' (init p')) \<longrightarrow>
       (\<exists>ms. heartbeatIntervalMs_f (conn (run evs' (init p'))) = Some ms \<and>
          kMinimumHeartbeatMonitorMs \<le> ms))"
proof -
  have a: "fst (heartbeatMonitor w) = Inl IntervalTooLow \<and>
      monitorTasks (snd (heartbeatMonitor w)) = monitorTasks w \<and>
      writeCalls (snd (heartbeatMonitor w)) = writeCalls w"
    if "case heartbeatIntervalMs_f (conn w) of
       None \<Rightarrow> True | Some ms \<Rightarrow> ms < kMinimumHeartbeatMonitorMs"
    using that
    by (auto simp add: heartbeatMonitor_def intervalTooLow_def Let_def split: option.splits)
  have b: "\<exists>now m. Message now m \<in> set evs \<and> msg_op m = kOpcodeHello \<and>
          kMinimumHeartbeatMonitorMs
            \<le> (case msg_heartbeat_interval m of None \<Rightarrow> 41250 | Some ms \<Rightarrow> ms)"
    if s: "\<forall>a. Send a \<in> set evs \<longrightarrow> property ''op'' a \<noteq> JsNum kOpcodeHeartbeat"
      and h: "\<exists>e \<in> set (writeCalls (run evs (init p))). env_op e = JsNum kOpcodeHeartbeat"
  proof -
    have "\<forall>ev \<in> set evs. \<not> appHeartbeat ev"
    proof
      fix ev assume "ev \<in> set evs"
      with s show "\<not> appHeartbeat ev" by (cases ev) auto
    qed
    moreover from h have "heartbeats (run evs (init p)) \<noteq> []"
      by (auto simp add: heartbeats_def filter_empty_conv)
    ultimately obtain ev where mem: "ev \<in> set evs" and acc: "acceptedHello ev"
      using monitoring_needs_hello [of evs p] by blast
    from acc obtain now m where ev: "ev = Message now m" by (cases ev) simp_all
    from mem acc show ?thesis unfolding ev by auto
  qed
  have c: "\<exists>ms. heartbeatIntervalMs_f (conn (run evs' (init p'))) = Some ms \<and>
          kMinimumHeartbeatMonitorMs \<le> ms"
    if l: "lifecycle evs' (init p')"
      and wr: "writeCalls (step (MonitorWake tok) (run evs' (init p')))
                 \<noteq> writeCalls (run evs' (init p'))"
  proof -
    have "guarded (init p')" by (simp add: guarded_def init_def)
    then have "guarded (run evs' (init p'))" using l by (rule guarded_run)
    from guarded_wake [OF this wr] show ?thesis
      by (auto simp add: intervalTooLow_def split: option.splits)
  qed
  from a b c show ?thesis by blast
qed

text \<open>
  Before any Hello \<^verbatim>\<open>heartbeatMonitor()\<close> throws. After a connection is established and
  a Hello with an interval of 41250 ms is handled, the end of the monitor's wait writes a
  Heartbeat.
\<close>

theorem heartbeat_needs_accepted_interval_witness:
  "fst (heartbeatMonitor (init (newBackoffPolicy 1000 60000))) = Inl IntervalTooLow \<and>
   (\<exists>e \<in> set (writeCalls (run
      [Established, Message 0 \<lparr>msg_op = kOpcodeHello, msg_heartbeat_interval = Some 41250\<rparr>,
       MonitorWake 0] (init (newBackoffPolicy 1000 60000)))). env_op e = JsNum kOpcodeHeartbeat) \<and>
   (\<exists>now m. Message now m \<in> set
      [Established, Message 0 \<lparr>msg_op = kOpcodeHello, msg_heartbeat_interval = Some 41250\<rparr>,
       MonitorWake 0] \<and> msg_op m = kOpcodeHello \<and>
      kMinimumHeartbeatMonitorMs
        \<le> (case msg_heartbeat_interval m of None \<Rightarrow> 41250 | Some ms \<Rightarrow> ms)) \<and>
   lifecycle
      [Established, Message 0 \<lparr>msg_op = kOpcodeHello, msg_heartbeat_interval = Some 41250\<rparr>]
      (init (newBackoffPolicy 1000 60000)) \<and>
   writeCalls (step (MonitorWake 0) (run
      [Established, Message 0 \<lparr>msg_op = kOpcodeHello, msg_heartbeat_interval = Some 41250\<rparr>]
      (init (newBackoffPolicy 1000 60000))))
     \<noteq> writeCalls (run
      [Established, Message 0 \<lparr>msg_op = kOpcodeHello, msg_heartbeat_interval = Some 41250\<rparr>]
      (init (newBackoffPolicy 1000 60000))) \<and>
   (\<exists>ms. heartbeatIntervalMs_f (conn (run
      [Established, Message 0 \<lparr>msg_op = kOpcodeHello, msg_heartbeat_interval = Some 41250\<rparr>]
      (init (newBackoffPolicy 1000 60000)))) = Some ms \<and> kMinimumHeartbeatMonitorMs \<le> ms)"
proof -
  let ?hello = "\<lparr>msg_op = kOpcodeHello, msg_heartbeat_interval = Some 41250\<rparr>"
  let ?i = "init (newBackoffPolicy 1000 60000)"
  have h1: "case heartbeatIntervalMs_f (conn ?i) of
       None \<Rightarrow> True | Some ms \<Rightarrow> ms < kMinimumHeartbeatMonitorMs"
    by (simp add: init_def)
  have h2: "\<forall>a. Send a \<in> set [Established, Message 0 ?hello, MonitorWake 0]
              \<longrightarrow> property ''op'' a \<noteq> JsNum kOpcodeHeartbeat"
    by simp
  have h3: "\<exists>e \<in> set (writeCalls (run [Established, Message 0 ?hello, MonitorWake 0] ?i)).
              env_op e = JsNum kOpcodeHeartbeat"
    by (simp add: model_defs opcode_defs intervalTooLow_def init_def Let_def)
  have h4: "lifecycle [Established, Message 0 ?hello] ?i"
    by (simp add: model_defs init_def)
  have h5: "writeCalls (step (MonitorWake 0) (run [Established, Message 0 ?hello] ?i))
              \<noteq> writeCalls (run [Established, Message 0 ?hello] ?i)"
    by (simp add: model_defs opcode_defs intervalTooLow_def init_def Let_def)
  from h1 h2 h3 h4 h5
    heartbeat_needs_accepted_interval
      [of ?i "[Established, Message 0 ?hello, MonitorWake 0]" "newBackoffPolicy 1000 60000"
        "[Established, Message 0 ?hello]" "newBackoffPolicy 1000 60000" 0]
  show ?thesis by blast
qed

text \<open>
  Claim C2 as stated fails: a connection is established and handles a Hello that carries
  no \<^verbatim>\<open>heartbeat_interval\<close>. The interval recorded is the default of 41250 ms, the
  monitor starts, and the end of its wait writes a Heartbeat, although no Hello has
  provided an interval.
\<close>

theorem heartbeat_after_default_interval_counterexample:
  "writeCalls (run
       [Established, Message 0 \<lparr>msg_op = kOpcodeHello, msg_heartbeat_interval = None\<rparr>,
        MonitorWake 0] (init (newBackoffPolicy 1000 60000)))
     = [\<lparr>env_op = JsNum kOpcodeHeartbeat, env_d = JsObject [], env_s = JsNull, env_t = JsNull\<rparr>]
   \<and> heartbeatIntervalMs_f (conn (run
       [Established, Message 0 \<lparr>msg_op = kOpcodeHello, msg_heartbeat_interval = None\<rparr>]
       (init (newBackoffPolicy 1000 60000)))) = Some 41250"
  by (simp add: model_defs opcode_defs intervalTooLow_def init_def Let_def)

end
